theory Spec2Isabelle
  imports Complex_Main
begin

section \<open>JavaScript values\<close>

text \<open>
  The configuration is whatever \<^verbatim>\<open>JSON.parse\<close> (at run time) or \<^verbatim>\<open>yaml.load\<close> (at build
  time) returns, and the TypeScript types are erased at run time (\<^verbatim>\<open>config.ts\<close> casts the
  parsed value, it does not check it). So the model works on untyped value trees. An
  object is the association list of its own properties in enumeration order; lookup takes
  the first binding of a key. Numbers are rationals (the code only tests them for
  truthiness and compares a length with zero). Strings are \<open>char list\<close>.

  Outside the model: values that neither JSON nor plain YAML data give (\<^verbatim>\<open>NaN\<close>, dates,
  functions, cyclic structures), and built-in prototypes other than the language
  defines them.
\<close>

datatype jsval =
    JUndefined
  | JNull
  | JBool bool
  | JNum rat
  | JStr string
  | JArr "jsval list"
  | JObj "(string \<times> jsval) list"

datatype js_type = TUndefined | TObject | TBoolean | TNumber | TString

fun js_typeof :: "jsval \<Rightarrow> js_type" where
  "js_typeof JUndefined = TUndefined"
| "js_typeof JNull = TObject"
| "js_typeof (JBool b) = TBoolean"
| "js_typeof (JNum n) = TNumber"
| "js_typeof (JStr s) = TString"
| "js_typeof (JArr xs) = TObject"
| "js_typeof (JObj kvs) = TObject"

text \<open>Truthiness, as tested by \<^verbatim>\<open>if (v)\<close>, \<^verbatim>\<open>!v\<close> and \<^verbatim>\<open>a && b\<close>.\<close>

fun js_truthy :: "jsval \<Rightarrow> bool" where
  "js_truthy JUndefined = False"
| "js_truthy JNull = False"
| "js_truthy (JBool b) = b"
| "js_truthy (JNum n) = (n \<noteq> 0)"
| "js_truthy (JStr s) = (s \<noteq> [])"
| "js_truthy (JArr xs) = True"
| "js_truthy (JObj kvs) = True"

fun Array_isArray :: "jsval \<Rightarrow> bool" where
  "Array_isArray (JArr xs) = True"
| "Array_isArray v = False"

text \<open>The elements of an array.\<close>

fun elements :: "jsval \<Rightarrow> jsval list" where
  "elements (JArr xs) = xs"
| "elements v = []"

text \<open>An optional string (an environment variable, \<^verbatim>\<open>user?.userId\<close>): \<open>None\<close> is
  \<^verbatim>\<open>undefined\<close>. The empty string is falsy.\<close>

definition string_truthy :: "string option \<Rightarrow> bool" where
  "string_truthy v = (case v of None \<Rightarrow> False | Some s \<Rightarrow> s \<noteq> [])"

definition js_or :: "string option \<Rightarrow> string option \<Rightarrow> string option" where
  "js_or a b = (if string_truthy a then a else b)"

text \<open>Decimal digits of a natural number: the keys of array elements, and the count in
  a log line.\<close>

fun nat_to_string :: "nat \<Rightarrow> string" where
  "nat_to_string n =
     (if n < 10 then [''0123456789'' ! n]
      else nat_to_string (n div 10) @ [''0123456789'' ! (n mod 10)])"

definition indexed_entries :: "jsval list \<Rightarrow> (string \<times> jsval) list" where
  "indexed_entries xs = zip (map nat_to_string [0..<length xs]) xs"

text \<open>Own properties. An array has its elements under their index keys and \<^verbatim>\<open>length\<close>; a
  string has its characters and \<^verbatim>\<open>length\<close>; the other primitives have none.\<close>

fun own_property :: "jsval \<Rightarrow> string \<Rightarrow> jsval option" where
  "own_property (JObj kvs) k = map_of kvs k"
| "own_property (JArr xs) k =
     (if k = ''length'' then Some (JNum (of_nat (length xs)))
      else map_of (indexed_entries xs) k)"
| "own_property (JStr cs) k =
     (if k = ''length'' then Some (JNum (of_nat (length cs)))
      else map_of (indexed_entries (map (\<lambda>c. JStr [c]) cs)) k)"
| "own_property v k = None"

text \<open>\<^verbatim>\<open>Object.entries\<close>: the own enumerable properties (\<^verbatim>\<open>length\<close> is not enumerable).\<close>

fun Object_entries :: "jsval \<Rightarrow> (string \<times> jsval) list" where
  "Object_entries (JObj kvs) = kvs"
| "Object_entries (JArr xs) = indexed_entries xs"
| "Object_entries (JStr cs) = indexed_entries (map (\<lambda>c. JStr [c]) cs)"
| "Object_entries v = []"

section \<open>Errors\<close>

text \<open>
  \<^verbatim>\<open>types.ts\<close> declares one error class, \<^verbatim>\<open>FeatureFlagValidationError\<close>. The loader also
  throws a plain \<^verbatim>\<open>Error\<close> and sees \<^verbatim>\<open>yaml.YAMLException\<close>; the engine throws
  \<^verbatim>\<open>TypeError\<close>, \<^verbatim>\<open>SyntaxError\<close> and \<^verbatim>\<open>ReferenceError\<close>; the file system throws its own
  errors. Each carries its message.
\<close>

datatype exn =
    FeatureFlagValidationError string
  | YAMLException string
  | Error string
  | TypeError string
  | SyntaxError string
  | ReferenceError string
  | SystemError string

fun exn_message :: "exn \<Rightarrow> string" where
  "exn_message (FeatureFlagValidationError m) = m"
| "exn_message (YAMLException m) = m"
| "exn_message (Error m) = m"
| "exn_message (TypeError m) = m"
| "exn_message (SyntaxError m) = m"
| "exn_message (ReferenceError m) = m"
| "exn_message (SystemError m) = m"

text \<open>The places where the engine itself throws; the wording of the message is the
  engine's.\<close>

datatype fault =
    ReadOfNullish jsval string
  | InOperand string jsval
  | NotCallable jsval string
  | ProcessUndefined

section \<open>The host\<close>

text \<open>
  What the code reads from its surroundings and the library functions it calls: the
  globals, the process environment, the file system, \<^verbatim>\<open>path\<close>, \<^verbatim>\<open>js-yaml\<close> and \<^verbatim>\<open>JSON\<close>.
  None of it is code of the package, so every theorem holds for every host.
  \<open>process_env = None\<close> stands for \<^verbatim>\<open>typeof process === 'undefined' || !process.env\<close>.
  \<open>inherited_member v k\<close> says that \<open>v[k]\<close> finds \<open>k\<close> on the prototype chain of \<open>v\<close>
  (\<^verbatim>\<open>toString\<close>, \<^verbatim>\<open>constructor\<close>, \<^verbatim>\<open>__proto__\<close>, ...); \<open>coerced_gt_zero v\<close> is \<^verbatim>\<open>v > 0\<close> for
  a string, array or object \<open>v\<close>, which the engine converts to a number first.
\<close>

record host =
  globalThis_window :: bool
  globalThis_document :: bool
  window_DEV :: bool
  process_versions_node :: bool
  process_env :: "(string \<Rightarrow> string option) option"
  process_cwd :: string
  path_isAbsolute :: "string \<Rightarrow> bool"
  path_join :: "string \<Rightarrow> string \<Rightarrow> string"
  fs_existsSync :: "string \<Rightarrow> bool"
  fs_readFileSync :: "string \<Rightarrow> exn + string"
  yaml_load :: "string \<Rightarrow> exn + jsval"
  JSON_parse :: "string \<Rightarrow> exn + jsval"
  JSON_stringify :: "jsval \<Rightarrow> string"
  inherited_member :: "jsval \<Rightarrow> string \<Rightarrow> bool"
  coerced_gt_zero :: "jsval \<Rightarrow> bool"
  fault_text :: "fault \<Rightarrow> string"

text \<open>Reading a property with a fixed name (\<^verbatim>\<open>features\<close>, \<^verbatim>\<open>onlyForUserIds\<close>, \<^verbatim>\<open>enabled\<close>,
  \<^verbatim>\<open>length\<close>): no built-in prototype defines these beyond the \<^verbatim>\<open>length\<close> of arrays and
  strings, so only own properties count. Reading from \<^verbatim>\<open>undefined\<close> or \<^verbatim>\<open>null\<close> throws.\<close>

definition js_prop :: "jsval \<Rightarrow> string \<Rightarrow> jsval" where
  "js_prop v k = (case own_property v k of Some x \<Rightarrow> x | None \<Rightarrow> JUndefined)"

definition js_get :: "host \<Rightarrow> jsval \<Rightarrow> string \<Rightarrow> exn + jsval" where
  "js_get h v k =
     (if v = JUndefined \<or> v = JNull then Inl (TypeError (fault_text h (ReadOfNullish v k)))
      else Inr (js_prop v k))"

text \<open>Reading a property whose name the caller chose (\<^verbatim>\<open>config.features[featureName]\<close>):
  an own property, or a built-in function or prototype object found on the prototype
  chain, or \<^verbatim>\<open>undefined\<close>.\<close>

datatype member = Data jsval | Builtin

definition js_member :: "host \<Rightarrow> jsval \<Rightarrow> string \<Rightarrow> exn + member" where
  "js_member h v k =
     (if v = JUndefined \<or> v = JNull then Inl (TypeError (fault_text h (ReadOfNullish v k)))
      else Inr (case own_property v k of
                  Some x \<Rightarrow> Data x
                | None \<Rightarrow> if inherited_member h v k then Builtin else Data JUndefined))"

text \<open>\<^verbatim>\<open>k in v\<close> throws unless \<open>v\<close> is an object.\<close>

definition has_property :: "string \<Rightarrow> jsval \<Rightarrow> bool" where
  "has_property k v = (own_property v k \<noteq> None)"

fun js_in :: "host \<Rightarrow> string \<Rightarrow> jsval \<Rightarrow> exn + bool" where
  "js_in h k (JObj kvs) = Inr (has_property k (JObj kvs))"
| "js_in h k (JArr xs) = Inr (has_property k (JArr xs))"
| "js_in h k v = Inl (TypeError (fault_text h (InOperand k v)))"

text \<open>\<^verbatim>\<open>v > 0\<close>.\<close>

fun js_gt_zero :: "host \<Rightarrow> jsval \<Rightarrow> bool" where
  "js_gt_zero h JUndefined = False"
| "js_gt_zero h JNull = False"
| "js_gt_zero h (JBool b) = b"
| "js_gt_zero h (JNum n) = (0 < n)"
| "js_gt_zero h v = coerced_gt_zero h v"

text \<open>\<^verbatim>\<open>s.includes(t)\<close> on strings: \<open>t\<close> occurs in \<open>s\<close> as a contiguous part.\<close>

fun starts_with :: "string \<Rightarrow> string \<Rightarrow> bool" where
  "starts_with s [] = True"
| "starts_with [] (c # t) = False"
| "starts_with (d # s) (c # t) = (d = c \<and> starts_with s t)"

fun string_includes :: "string \<Rightarrow> string \<Rightarrow> bool" where
  "string_includes [] t = (t = [])"
| "string_includes (d # s) t = (starts_with (d # s) t \<or> string_includes s t)"

text \<open>\<^verbatim>\<open>v.includes(uid)\<close> for a string \<open>uid\<close>: an array compares its elements with \<open>uid\<close>
  (no conversion), a string searches for it, and on an object the call throws, since
  \<^verbatim>\<open>includes\<close> is then missing or a parsed value, never a function.\<close>

fun js_includes :: "host \<Rightarrow> jsval \<Rightarrow> string \<Rightarrow> exn + bool" where
  "js_includes h (JArr xs) uid = Inr (JStr uid \<in> set xs)"
| "js_includes h (JStr s) uid = Inr (string_includes s uid)"
| "js_includes h v uid = Inl (TypeError (fault_text h (NotCallable v ''includes'')))"

section \<open>environment.ts\<close>

datatype Environment = browser | node

definition detectEnvironment :: "host \<Rightarrow> Environment" where
  "detectEnvironment h =
     (if globalThis_window h \<and> globalThis_document h then browser
      else if process_versions_node h then node
      else node)"

definition isDevelopment :: "host \<Rightarrow> bool" where
  "isDevelopment h =
     (let nodeEnv = (case process_env h of None \<Rightarrow> None | Some env \<Rightarrow> env ''NODE_ENV'')
      in if nodeEnv = Some ''development'' \<or> nodeEnv = Some ''dev'' then True
         else if globalThis_window h \<and> window_DEV h then True
         else False)"

text \<open>
  The mutable state of the package: the cache slot of \<^verbatim>\<open>config.ts\<close> (\<^verbatim>\<open>null\<close> when empty),
  the two static fields of \<^verbatim>\<open>Logger\<close>, set once when the module is loaded, and what has
  been written to the console and the standard streams. Writing is taken to succeed.
\<close>

datatype sink = console_info | console_warn | console_error | process_stdout | process_stderr

record state =
  cachedConfig :: jsval
  Logger_env :: Environment
  Logger_isDev :: bool
  written :: "(sink \<times> string) list"

definition initial_state :: "host \<Rightarrow> state" where
  "initial_state h =
     \<lparr>cachedConfig = JNull, Logger_env = detectEnvironment h,
      Logger_isDev = isDevelopment h, written = []\<rparr>"

definition emit :: "sink \<Rightarrow> string \<Rightarrow> state \<Rightarrow> state" where
  "emit k line s = s\<lparr>written := written s @ [(k, line)]\<rparr>"

definition Logger_info :: "string \<Rightarrow> state \<Rightarrow> state" where
  "Logger_info message s =
     (if \<not> Logger_isDev s then s
      else if Logger_env s = browser then emit console_info (''[ffxl] '' @ message) s
      else emit process_stdout (''[ffxl] '' @ message @ [CHR 0x0A]) s)"

definition Logger_warn :: "string \<Rightarrow> state \<Rightarrow> state" where
  "Logger_warn message s =
     (if \<not> Logger_isDev s then s
      else if Logger_env s = browser then emit console_warn (''[ffxl] '' @ message) s
      else emit process_stderr (''[ffxl] WARNING: '' @ message @ [CHR 0x0A]) s)"

definition Logger_error :: "string \<Rightarrow> state \<Rightarrow> state" where
  "Logger_error message s =
     (if Logger_env s = browser then emit console_error (''[ffxl] '' @ message) s
      else emit process_stderr (''[ffxl] ERROR: '' @ message @ [CHR 0x0A]) s)"

section \<open>config.ts\<close>

definition empty_config :: jsval where
  "empty_config = JObj [(''features'', JObj [])]"

text \<open>\<^verbatim>\<open>process.env.FEATURE_FLAGS_CONFIG || process.env.FFXL_CONFIG\<close>, guarded by
  \<^verbatim>\<open>typeof process !== 'undefined' && process.env\<close>.\<close>

definition configString :: "host \<Rightarrow> string option" where
  "configString h =
     (case process_env h of
        None \<Rightarrow> None
      | Some env \<Rightarrow> js_or (env ''FEATURE_FLAGS_CONFIG'') (env ''FFXL_CONFIG''))"

text \<open>A function returns its value or the exception it throws, and the state it leaves.
  In \<open>getConfig\<close> the whole body after the cache test is inside \<^verbatim>\<open>try\<close>; the only call
  that can throw there is \<^verbatim>\<open>JSON.parse\<close>, and the \<open>Inl\<close> branch is the \<^verbatim>\<open>catch\<close> block.
  (\<open>the\<close> is applied to an optional string only after \<open>string_truthy\<close> has found it
  present, here and below.)\<close>

definition getConfig :: "host \<Rightarrow> state \<Rightarrow> (exn + jsval) \<times> state" where
  "getConfig h s =
     (if js_truthy (cachedConfig s) then (Inr (cachedConfig s), s)
      else if \<not> string_truthy (configString h) then
        (let s1 = Logger_warn ''No feature flags configuration found in environment'' s;
             s2 = s1\<lparr>cachedConfig := empty_config\<rparr>
         in (Inr (cachedConfig s2), s2))
      else
        (case JSON_parse h (the (configString h)) of
           Inr parsed \<Rightarrow>
             (let s1 = s\<lparr>cachedConfig := parsed\<rparr>;
                  s2 = Logger_info ''Feature flags configuration loaded successfully'' s1
              in (Inr (cachedConfig s2), s2))
         | Inl error \<Rightarrow>
             (let s1 = Logger_error
                         (''Failed to parse feature flags config: '' @ exn_message error) s;
                  s2 = s1\<lparr>cachedConfig := empty_config\<rparr>
              in (Inr (cachedConfig s2), s2))))"

definition clearCache :: "state \<Rightarrow> state" where
  "clearCache s = s\<lparr>cachedConfig := JNull\<rparr>"

section \<open>evaluator.ts\<close>

record UserIdentity =
  userId :: "string option"
  handle :: "string option"
  email :: "string option"

text \<open>\<^verbatim>\<open>user?.userId\<close>\<close>

definition optional_userId :: "UserIdentity option \<Rightarrow> string option" where
  "optional_userId user = (case user of None \<Rightarrow> None | Some u \<Rightarrow> userId u)"

text \<open>
  The \<^verbatim>\<open>try\<close> block of \<open>isFeatureEnabled\<close>. \<^verbatim>\<open>config.features\<close> throws when the
  configuration is \<^verbatim>\<open>null\<close>, and \<^verbatim>\<open>config.features[featureName]\<close> when \<^verbatim>\<open>features\<close> is missing.
  A feature that is truthy can be read from without a throw, and so can a truthy
  \<^verbatim>\<open>onlyForUserIds\<close>. A built-in found on the prototype chain is truthy, has no
  \<^verbatim>\<open>onlyForUserIds\<close> and no \<^verbatim>\<open>enabled\<close>, so it reaches the last \<^verbatim>\<open>return false\<close>.
\<close>

definition isFeatureEnabled_try ::
  "host \<Rightarrow> string \<Rightarrow> UserIdentity option \<Rightarrow> state \<Rightarrow> (exn + bool) \<times> state" where
  \<open>isFeatureEnabled_try h featureName user s =
     (case getConfig h s of
        (Inl e, s1) \<Rightarrow> (Inl e, s1)
      | (Inr config, s1) \<Rightarrow>
          (case js_get h config ''features'' of
             Inl e \<Rightarrow> (Inl e, s1)
           | Inr features \<Rightarrow>
               (case js_member h features featureName of
                  Inl e \<Rightarrow> (Inl e, s1)
                | Inr Builtin \<Rightarrow> (Inr False, s1)
                | Inr (Data feature) \<Rightarrow>
                    if \<not> js_truthy feature then
                      (Inr False,
                       Logger_warn
                         (''Feature "'' @ featureName @ ''" not found in configuration'') s1)
                    else
                      (let ids = js_prop feature ''onlyForUserIds'' in
                       if js_truthy ids \<and> js_gt_zero h (js_prop ids ''length'') then
                         (if \<not> string_truthy (optional_userId user) then (Inr False, s1)
                          else (js_includes h ids (the (optional_userId user)), s1))
                       else
                         (case js_in h ''enabled'' feature of
                            Inl e \<Rightarrow> (Inl e, s1)
                          | Inr present \<Rightarrow>
                              if present
                              then (Inr (js_prop feature ''enabled'' = JBool True), s1)
                              else (Inr False, s1))))))\<close>

text \<open>The \<^verbatim>\<open>catch\<close> block logs the error and returns \<^verbatim>\<open>false\<close>.\<close>

definition isFeatureEnabled ::
  "host \<Rightarrow> string \<Rightarrow> UserIdentity option \<Rightarrow> state \<Rightarrow> (exn + bool) \<times> state" where
  \<open>isFeatureEnabled h featureName user s =
     (case isFeatureEnabled_try h featureName user s of
        (Inr b, s1) \<Rightarrow> (Inr b, s1)
      | (Inl error, s1) \<Rightarrow>
          (Inr False,
           Logger_error
             (''Error evaluating feature "'' @ featureName @ ''": '' @ exn_message error) s1))\<close>

text \<open>\<^verbatim>\<open>Array.prototype.some\<close> and \<^verbatim>\<open>every\<close> with a callback that changes the state and may
  throw: they call it on the elements in order and stop at the first \<^verbatim>\<open>true\<close>
  (\<^verbatim>\<open>false\<close> for \<^verbatim>\<open>every\<close>) or at a throw.\<close>

fun array_some ::
  "('a \<Rightarrow> state \<Rightarrow> (exn + bool) \<times> state) \<Rightarrow> 'a list \<Rightarrow> state \<Rightarrow> (exn + bool) \<times> state" where
  "array_some f [] s = (Inr False, s)"
| "array_some f (x # xs) s =
     (case f x s of
        (Inl e, s1) \<Rightarrow> (Inl e, s1)
      | (Inr b, s1) \<Rightarrow> if b then (Inr True, s1) else array_some f xs s1)"

fun array_every ::
  "('a \<Rightarrow> state \<Rightarrow> (exn + bool) \<times> state) \<Rightarrow> 'a list \<Rightarrow> state \<Rightarrow> (exn + bool) \<times> state" where
  "array_every f [] s = (Inr True, s)"
| "array_every f (x # xs) s =
     (case f x s of
        (Inl e, s1) \<Rightarrow> (Inl e, s1)
      | (Inr b, s1) \<Rightarrow> if b then array_every f xs s1 else (Inr False, s1))"

definition isAnyFeatureEnabled ::
  "host \<Rightarrow> string list \<Rightarrow> UserIdentity option \<Rightarrow> state \<Rightarrow> (exn + bool) \<times> state" where
  "isAnyFeatureEnabled h featureNames user s =
     array_some (\<lambda>name. isFeatureEnabled h name user) featureNames s"

definition areAllFeaturesEnabled ::
  "host \<Rightarrow> string list \<Rightarrow> UserIdentity option \<Rightarrow> state \<Rightarrow> (exn + bool) \<times> state" where
  "areAllFeaturesEnabled h featureNames user s =
     array_every (\<lambda>name. isFeatureEnabled h name user) featureNames s"

section \<open>loader.ts\<close>

text \<open>After the \<^verbatim>\<open>typeof config !== 'object' || config === null\<close> guard the value is an
  object or an array, on which \<^verbatim>\<open>in\<close> does not throw: \<open>has_property\<close>.\<close>

definition validateFeatureConfig :: "string \<Rightarrow> jsval \<Rightarrow> exn + unit" where
  \<open>validateFeatureConfig name config =
     (if js_typeof config \<noteq> TObject \<or> config = JNull then
        Inl (FeatureFlagValidationError (''Feature "'' @ name @ ''" must be an object''))
      else
        (let hasEnabled = has_property ''enabled'' config;
             hasOnlyForUserIds = has_property ''onlyForUserIds'' config
         in
           if \<not> hasEnabled \<and> \<not> hasOnlyForUserIds then
             Inl (FeatureFlagValidationError
                   (''Feature "'' @ name @
                    ''" must have either "enabled" or "onlyForUserIds" property''))
           else if hasEnabled \<and> js_typeof (js_prop config ''enabled'') \<noteq> TBoolean then
             Inl (FeatureFlagValidationError
                   (''Feature "'' @ name @ ''": "enabled" must be a boolean''))
           else if hasOnlyForUserIds \<and> \<not> Array_isArray (js_prop config ''onlyForUserIds'') then
             Inl (FeatureFlagValidationError
                   (''Feature "'' @ name @ ''": "onlyForUserIds" must be an array''))
           else if hasOnlyForUserIds \<and>
                   \<not> list_all (\<lambda>item. js_typeof item = TString)
                       (elements (js_prop config ''onlyForUserIds'')) then
             Inl (FeatureFlagValidationError
                   (''Feature "'' @ name @
                    ''": all items in "onlyForUserIds" must be strings''))
           else if has_property ''comment'' config \<and>
                   js_typeof (js_prop config ''comment'') \<noteq> TString then
             Inl (FeatureFlagValidationError
                   (''Feature "'' @ name @ ''": "comment" must be a string''))
           else Inr ()))\<close>

text \<open>The \<^verbatim>\<open>for\<close> loop over \<^verbatim>\<open>Object.entries(data.features)\<close>: the first throw ends it.\<close>

fun validate_entries :: "(string \<times> jsval) list \<Rightarrow> exn + unit" where
  "validate_entries [] = Inr ()"
| "validate_entries ((name, config) # rest) =
     (case validateFeatureConfig name config of
        Inl e \<Rightarrow> Inl e
      | Inr u \<Rightarrow> validate_entries rest)"

definition validateConfig :: "jsval \<Rightarrow> exn + unit" where
  \<open>validateConfig data =
     (if js_typeof data \<noteq> TObject \<or> data = JNull then
        Inl (FeatureFlagValidationError ''Configuration must be an object'')
      else if \<not> has_property ''features'' data then
        Inl (FeatureFlagValidationError ''Configuration must have a "features" property'')
      else if js_typeof (js_prop data ''features'') \<noteq> TObject \<or> js_prop data ''features'' = JNull then
        Inl (FeatureFlagValidationError ''"features" must be an object'')
      else validate_entries (Object_entries (js_prop data ''features'')))\<close>

text \<open>\<^verbatim>\<open>process.env.FEATURE_FLAGS_FILE || process.env.FFXL_FILE\<close> is read without a guard:
  where \<^verbatim>\<open>process\<close> is missing the read throws.\<close>

definition getFeatureFlagsPath :: "host \<Rightarrow> state \<Rightarrow> (exn + string) \<times> state" where
  "getFeatureFlagsPath h s =
     (case process_env h of
        None \<Rightarrow> (Inl (ReferenceError (fault_text h ProcessUndefined)), s)
      | Some env \<Rightarrow>
          (let envPath = js_or (env ''FEATURE_FLAGS_FILE'') (env ''FFXL_FILE'') in
           if string_truthy envPath then
             (let s1 = Logger_info
                         (''Using feature flags file from environment: '' @ the envPath) s
              in (Inr (if path_isAbsolute h (the envPath) then the envPath
                       else path_join h (process_cwd h) (the envPath)), s1))
           else
             (let defaultPath = path_join h (process_cwd h) ''feature-flags.yaml'';
                  s1 = Logger_info (''Using default feature flags file: '' @ defaultPath) s
              in (Inr defaultPath, s1))))"

text \<open>The \<^verbatim>\<open>try\<close> block of \<open>loadFeatureFlags\<close>.\<close>

definition loadFeatureFlags_try :: "host \<Rightarrow> string \<Rightarrow> state \<Rightarrow> (exn + jsval) \<times> state" where
  "loadFeatureFlags_try h filePath s =
     (if \<not> fs_existsSync h filePath then
        (Inl (FeatureFlagValidationError (''Feature flags file not found: '' @ filePath)), s)
      else
        (case fs_readFileSync h filePath of
           Inl e \<Rightarrow> (Inl e, s)
         | Inr fileContents \<Rightarrow>
             (case yaml_load h fileContents of
                Inl e \<Rightarrow> (Inl e, s)
              | Inr data \<Rightarrow>
                  (case validateConfig data of
                     Inl e \<Rightarrow> (Inl e, s)
                   | Inr u \<Rightarrow>
                       (let s1 = Logger_info
                                   (''Successfully loaded feature flags from '' @ filePath) s;
                            s2 = Logger_info
                                   (''Loaded '' @
                                    nat_to_string
                                      (length (Object_entries (js_prop data ''features''))) @
                                    '' feature flag(s)'') s1
                        in (Inr data, s2))))))"

text \<open>The \<^verbatim>\<open>catch\<close> block logs and throws again; a \<^verbatim>\<open>YAMLException\<close> becomes a
  \<^verbatim>\<open>FeatureFlagValidationError\<close>.\<close>

definition loadFeatureFlags :: "host \<Rightarrow> state \<Rightarrow> (exn + jsval) \<times> state" where
  "loadFeatureFlags h s =
     (if detectEnvironment h \<noteq> node then
        (Inl (Error ''loadFeatureFlags() can only be called in Node.js environment''), s)
      else
        (case getFeatureFlagsPath h s of
           (Inl e, s1) \<Rightarrow> (Inl e, s1)
         | (Inr filePath, s1) \<Rightarrow>
             (case loadFeatureFlags_try h filePath s1 of
                (Inr data, s2) \<Rightarrow> (Inr data, s2)
              | (Inl error, s2) \<Rightarrow>
                  (case error of
                     FeatureFlagValidationError m \<Rightarrow>
                       (Inl error,
                        Logger_error (''Feature flags validation failed: '' @ m) s2)
                   | YAMLException m \<Rightarrow>
                       (Inl (FeatureFlagValidationError (''Invalid YAML syntax: '' @ m)),
                        Logger_error (''Failed to parse feature flags YAML: '' @ m) s2)
                   | _ \<Rightarrow>
                       (Inl error,
                        Logger_error
                          (''Failed to load feature flags: '' @ exn_message error) s2)))))"


section \<open>Notions used in the statements\<close>

text \<open>Neither transport variable is defined (or there is no \<^verbatim>\<open>process.env\<close> at all).\<close>

definition transport_undefined :: "host \<Rightarrow> bool" where
  "transport_undefined h =
     (case process_env h of
        None \<Rightarrow> True
      | Some env \<Rightarrow> env ''FEATURE_FLAGS_CONFIG'' = None \<and> env ''FFXL_CONFIG'' = None)"

text \<open>The rule a configuration holds for a feature name: the own property of that name
  of its \<^verbatim>\<open>features\<close>.\<close>

definition rule_of :: "jsval \<Rightarrow> string \<Rightarrow> jsval option" where
  "rule_of config name =
     (case own_property config ''features'' of
        None \<Rightarrow> None
      | Some features \<Rightarrow> own_property features name)"

text \<open>What lines 19 to 31 of \<^verbatim>\<open>evaluator.ts\<close> return for a rule that is an object with the
  properties \<open>props\<close>; a throw of \<^verbatim>\<open>includes\<close> counts as \<^verbatim>\<open>false\<close>, as the \<^verbatim>\<open>catch\<close> block
  makes it.\<close>

definition rule_verdict :: "host \<Rightarrow> (string \<times> jsval) list \<Rightarrow> UserIdentity option \<Rightarrow> bool" where
  "rule_verdict h props user =
     (let ids = js_prop (JObj props) ''onlyForUserIds'' in
      if js_truthy ids \<and> js_gt_zero h (js_prop ids ''length'')
      then string_truthy (optional_userId user) \<and>
           js_includes h ids (the (optional_userId user)) = Inr True
      else map_of props ''enabled'' = Some (JBool True))"

text \<open>The elements of a list up to and including the first one that satisfies \<open>P\<close>: the
  calls a short-circuiting loop makes.\<close>

fun through_first :: "('a \<Rightarrow> bool) \<Rightarrow> 'a list \<Rightarrow> 'a list" where
  "through_first P [] = []"
| "through_first P (x # xs) = (if P x then [x] else x # through_first P xs)"

text \<open>The state after calling \<open>isFeatureEnabled\<close> on each of the names in order, and
  the result of a single call in a given state.\<close>

definition after_calls :: "host \<Rightarrow> UserIdentity option \<Rightarrow> string list \<Rightarrow> state \<Rightarrow> state" where
  "after_calls h user names s =
     fold (\<lambda>name st. snd (isFeatureEnabled h name user st)) names s"

definition enabled_in :: "host \<Rightarrow> UserIdentity option \<Rightarrow> state \<Rightarrow> string \<Rightarrow> bool" where
  "enabled_in h user s name = (fst (isFeatureEnabled h name user s) = Inr True)"

text \<open>The three defects of a feature entry that the validation is said to reject: neither
  \<^verbatim>\<open>enabled\<close> nor \<^verbatim>\<open>onlyForUserIds\<close>; a \<^verbatim>\<open>comment\<close> that is not a string; an
  \<^verbatim>\<open>onlyForUserIds\<close> array with an element that is not a string.\<close>

definition missing_both :: "jsval \<Rightarrow> bool" where
  "missing_both entry =
     (\<not> has_property ''enabled'' entry \<and> \<not> has_property ''onlyForUserIds'' entry)"

definition comment_not_string :: "jsval \<Rightarrow> bool" where
  "comment_not_string entry =
     (case own_property entry ''comment'' of
        None \<Rightarrow> False
      | Some c \<Rightarrow> js_typeof c \<noteq> TString)"

definition non_string_id :: "jsval \<Rightarrow> bool" where
  "non_string_id entry =
     (case own_property entry ''onlyForUserIds'' of
        Some (JArr xs) \<Rightarrow> \<not> list_all (\<lambda>item. js_typeof item = TString) xs
      | _ \<Rightarrow> False)"

section \<open>Sample hosts\<close>

text \<open>A Node.js process in \<^verbatim>\<open>/app\<close> with an empty environment and no files.\<close>

definition sample_host :: host where
  "sample_host =
     \<lparr>globalThis_window = False, globalThis_document = False, window_DEV = False,
      process_versions_node = True,
      process_env = Some (\<lambda>name. None),
      process_cwd = ''/app'',
      path_isAbsolute = (\<lambda>p. starts_with p ''/''),
      path_join = (\<lambda>a b. a @ ''/'' @ b),
      fs_existsSync = (\<lambda>p. False),
      fs_readFileSync = (\<lambda>p. Inl (SystemError ''ENOENT: no such file or directory'')),
      yaml_load = (\<lambda>t. Inl (YAMLException ''bad indentation of a mapping entry'')),
      JSON_parse = (\<lambda>t. Inl (SyntaxError ''Unexpected end of JSON input'')),
      JSON_stringify = (\<lambda>v. ''null''),
      inherited_member =
        (\<lambda>v k. k \<in> set [''constructor'', ''toString'', ''valueOf'', ''hasOwnProperty'',
                         ''__proto__'']),
      coerced_gt_zero = (\<lambda>v. False),
      fault_text = (\<lambda>f. ''TypeError'')\<rparr>"

text \<open>The same process in development mode with \<^verbatim>\<open>FFXL_CONFIG\<close> set to a text that
  \<^verbatim>\<open>JSON.parse\<close> reads as the given value.\<close>

definition host_with_transport :: "string \<Rightarrow> jsval \<Rightarrow> host" where
  "host_with_transport transport parsed =
     sample_host
       \<lparr>process_env :=
          Some (map_of [(''NODE_ENV'', ''development''), (''FFXL_CONFIG'', transport)]),
        JSON_parse := (\<lambda>t. if t = transport then Inr parsed
                            else Inl (SyntaxError ''Unexpected token''))\<rparr>"

text \<open>The configuration of \<^verbatim>\<open>evaluator.test.ts\<close>.\<close>

definition test_config :: jsval where
  "test_config =
     JObj [(''features'', JObj
       [(''test_feature_enabled'',
           JObj [(''enabled'', JBool True),
                 (''comment'', JStr ''Test feature that is enabled'')]),
        (''test_feature_disabled'',
           JObj [(''enabled'', JBool False),
                 (''comment'', JStr ''Test feature that is disabled'')]),
        (''test_feature_user_specific'',
           JObj [(''onlyForUserIds'', JArr [JStr ''user-123'', JStr ''user-456'']),
                 (''comment'', JStr ''Feature for specific users'')]),
        (''test_feature_combined'',
           JObj [(''enabled'', JBool False), (''onlyForUserIds'', JArr [JStr ''user-789'']),
                 (''comment'', JStr ''Combined config - user list takes precedence'')])])]"

definition test_text :: string where
  \<open>test_text = ''{"features":{"test_feature_enabled":{"enabled":true,"comment":"Test feature that is enabled"},"test_feature_disabled":{"enabled":false,"comment":"Test feature that is disabled"},"test_feature_user_specific":{"onlyForUserIds":["user-123","user-456"],"comment":"Feature for specific users"},"test_feature_combined":{"enabled":false,"onlyForUserIds":["user-789"],"comment":"Combined config - user list takes precedence"}}}''\<close>

definition test_host :: host where
  "test_host = host_with_transport test_text test_config"

definition with_userId :: "string \<Rightarrow> UserIdentity option" where
  "with_userId uid = Some \<lparr>userId = Some uid, handle = None, email = None\<rparr>"

text \<open>A rule whose list holds the empty string; and rules whose \<^verbatim>\<open>enabled\<close> is not a
  boolean, one of them with a string and one with an object as \<^verbatim>\<open>onlyForUserIds\<close>.
  \<open>getConfig\<close> accepts them all.\<close>

definition blank_id_config :: jsval where
  "blank_id_config =
     JObj [(''features'', JObj [(''beta'', JObj [(''onlyForUserIds'', JArr [JStr []])])])]"

definition blank_id_host :: host where
  \<open>blank_id_host =
     host_with_transport ''{"features":{"beta":{"onlyForUserIds":[""]}}}'' blank_id_config\<close>

definition loose_config :: jsval where
  "loose_config =
     JObj [(''features'', JObj
       [(''beta'', JObj [(''enabled'', JStr ''off''), (''onlyForUserIds'', JStr ''user-123'')]),
        (''gamma'', JObj [(''enabled'', JStr ''true'')]),
        (''delta'', JObj [(''enabled'', JNum 1),
                          (''onlyForUserIds'', JObj [(''length'', JNum 3)])])])]"

definition loose_host :: host where
  \<open>loose_host =
     host_with_transport
       ''{"features":{"beta":{"enabled":"off","onlyForUserIds":"user-123"},"gamma":{"enabled":"true"},"delta":{"enabled":1,"onlyForUserIds":{"length":3}}}}''
       loose_config\<close>

text \<open>A rule with an empty list beside \<^verbatim>\<open>enabled: true\<close>, and one with an empty list
  alone.\<close>

definition empty_list_config :: jsval where
  "empty_list_config =
     JObj [(''features'', JObj
       [(''beta'', JObj [(''enabled'', JBool True), (''onlyForUserIds'', JArr [])]),
        (''gamma'', JObj [(''onlyForUserIds'', JArr [])])])]"

definition empty_list_host :: host where
  \<open>empty_list_host =
     host_with_transport
       ''{"features":{"beta":{"enabled":true,"onlyForUserIds":[]},"gamma":{"onlyForUserIds":[]}}}''
       empty_list_config\<close>

text \<open>The state of the test process after its first \<open>getConfig\<close>.\<close>

definition test_loaded :: state where
  "test_loaded =
     \<lparr>cachedConfig = test_config, Logger_env = node, Logger_isDev = True,
      written = [(process_stdout,
                  ''[ffxl] Feature flags configuration loaded successfully'' @ [CHR 0x0A])]\<rparr>"


section \<open>The configuration store\<close>


lemma getConfig_fst:
  assumes "fst (getConfig h s) = Inr config"
  obtains s1 where "getConfig h s = (Inr config, s1)"
  using assms by (cases "getConfig h s") auto


lemma cachedConfig_Logger [simp]:
  "cachedConfig (Logger_info m s) = cachedConfig s"
  "cachedConfig (Logger_warn m s) = cachedConfig s"
  "cachedConfig (Logger_error m s) = cachedConfig s"
  by (simp_all add: Logger_info_def Logger_warn_def Logger_error_def emit_def)

lemmas sample_defs =
  sample_host_def host_with_transport_def test_host_def test_config_def test_text_def
  blank_id_host_def blank_id_config_def loose_host_def loose_config_def
  empty_list_host_def empty_list_config_def
  with_userId_def initial_state_def detectEnvironment_def isDevelopment_def
  configString_def js_or_def string_truthy_def rule_of_def empty_config_def
  transport_undefined_def

lemmas Logger_defs = Logger_info_def Logger_warn_def Logger_error_def emit_def



section \<open>The evaluator\<close>

lemma js_get_own: "own_property v k = Some x \<Longrightarrow> js_get h v k = Inr x"
  by (cases v) (auto simp: js_get_def js_prop_def)

lemma js_member_own: "own_property v k = Some x \<Longrightarrow> js_member h v k = Inr (Data x)"
  by (cases v) (auto simp: js_member_def)

text \<open>The \<^verbatim>\<open>try\<close> block on a rule that is an object.\<close>

lemma isFeatureEnabled_try_rule:
  assumes cfg: "getConfig h s = (Inr config, s1)"
    and rule: "rule_of config name = Some (JObj props)"
  shows "isFeatureEnabled_try h name user s =
     (let ids = js_prop (JObj props) ''onlyForUserIds'' in
      if js_truthy ids \<and> js_gt_zero h (js_prop ids ''length'')
      then (if \<not> string_truthy (optional_userId user) then (Inr False, s1)
            else (js_includes h ids (the (optional_userId user)), s1))
      else (Inr (map_of props ''enabled'' = Some (JBool True)), s1))"
proof -
  from rule obtain features where f: "own_property config ''features'' = Some features"
    and r: "own_property features name = Some (JObj props)"
    by (auto simp: rule_of_def split: option.splits)
  have g: "js_get h config ''features'' = Inr features" using f by (rule js_get_own)
  have m: "js_member h features name = Inr (Data (JObj props))" using r by (rule js_member_own)
  show ?thesis
    unfolding isFeatureEnabled_try_def
    by (simp add: cfg g m Let_def has_property_def js_prop_def split: option.splits)
qed

lemma isFeatureEnabled_rule:
  assumes cfg: "fst (getConfig h s) = Inr config"
    and rule: "rule_of config name = Some (JObj props)"
  shows "fst (isFeatureEnabled h name user s) = Inr (rule_verdict h props user)"
proof -
  from cfg obtain s1 where c: "getConfig h s = (Inr config, s1)" by (rule getConfig_fst)
  show ?thesis
    unfolding isFeatureEnabled_def isFeatureEnabled_try_rule [OF c rule] rule_verdict_def
    by (auto simp: Let_def split: sum.splits)
qed

lemma isFeatureEnabled_returns: "\<exists>b s1. isFeatureEnabled h name user s = (Inr b, s1)"
  unfolding isFeatureEnabled_def
  by (cases "isFeatureEnabled_try h name user s") (auto split: sum.splits)



lemma test_getConfig: "fst (getConfig test_host (initial_state test_host)) = Inr test_config"
  by (simp add: getConfig_def sample_defs Logger_defs)

lemma test_rule_combined:
  "rule_of test_config ''test_feature_combined'' =
     Some (JObj [(''enabled'', JBool False), (''onlyForUserIds'', JArr [JStr ''user-789'']),
                 (''comment'', JStr ''Combined config - user list takes precedence'')])"
  by (simp add: sample_defs)

lemma test_rule_user_specific:
  "rule_of test_config ''test_feature_user_specific'' =
     Some (JObj [(''onlyForUserIds'', JArr [JStr ''user-123'', JStr ''user-456'']),
                 (''comment'', JStr ''Feature for specific users'')])"
  by (simp add: sample_defs)

lemma blank_id_getConfig:
  "fst (getConfig blank_id_host (initial_state blank_id_host)) = Inr blank_id_config"
  by (simp add: getConfig_def sample_defs Logger_defs)

lemma blank_id_rule:
  "rule_of blank_id_config ''beta'' = Some (JObj [(''onlyForUserIds'', JArr [JStr []])])"
  by (simp add: sample_defs)





lemma empty_list_getConfig:
  "fst (getConfig empty_list_host (initial_state empty_list_host)) = Inr empty_list_config"
  by (simp add: getConfig_def sample_defs Logger_defs)

lemma empty_list_rule_beta:
  "rule_of empty_list_config ''beta'' =
     Some (JObj [(''enabled'', JBool True), (''onlyForUserIds'', JArr [])])"
  by (simp add: sample_defs)

lemma empty_list_rule_gamma:
  "rule_of empty_list_config ''gamma'' = Some (JObj [(''onlyForUserIds'', JArr [])])"
  by (simp add: sample_defs)


text \<open>
  Claim C1, as the code has it. Where the configuration's rule for a feature has a
  non-empty \<^verbatim>\<open>onlyForUserIds\<close> list, \<open>isFeatureEnabled\<close> returns \<^verbatim>\<open>true\<close> if and only if a
  user is supplied whose \<^verbatim>\<open>userId\<close> is a non-empty string that is an element of the list,
  whatever \<^verbatim>\<open>enabled\<close> holds; so it returns \<^verbatim>\<open>false\<close> when the user is absent or has no
  \<^verbatim>\<open>userId\<close>. The guard \<^verbatim>\<open>!user?.userId\<close> also refuses the empty string.
\<close>

theorem user_list_overrides_enabled:
  assumes cfg: "fst (getConfig h s) = Inr config"
    and rule: "rule_of config name = Some (JObj props)"
    and ids: "map_of props ''onlyForUserIds'' = Some (JArr (x # xs))"
  shows "fst (isFeatureEnabled h name user s) =
     Inr (\<exists>u uid. user = Some u \<and> userId u = Some uid \<and> uid \<noteq> [] \<and> JStr uid \<in> set (x # xs))"
  unfolding isFeatureEnabled_rule [OF cfg rule] rule_verdict_def
  using ids
  by (auto simp: js_prop_def Let_def string_truthy_def optional_userId_def split: option.splits)

text \<open>The precedence test of \<^verbatim>\<open>evaluator.test.ts\<close>: \<^verbatim>\<open>enabled: false\<close> with a listed,
  an unlisted and no user; and a rule without \<^verbatim>\<open>enabled\<close>.\<close>

theorem user_list_overrides_enabled_witness:
  "fst (isFeatureEnabled test_host ''test_feature_combined'' (with_userId ''user-789'')
          (initial_state test_host)) = Inr True \<and>
   fst (isFeatureEnabled test_host ''test_feature_combined'' (with_userId ''user-999'')
          (initial_state test_host)) = Inr False \<and>
   fst (isFeatureEnabled test_host ''test_feature_combined'' None
          (initial_state test_host)) = Inr False \<and>
   fst (isFeatureEnabled test_host ''test_feature_user_specific'' (with_userId ''user-456'')
          (initial_state test_host)) = Inr True"
  using user_list_overrides_enabled
          [OF test_getConfig test_rule_combined, of "JStr ''user-789''" "[]"
             "with_userId ''user-789''"]
        user_list_overrides_enabled
          [OF test_getConfig test_rule_combined, of "JStr ''user-789''" "[]"
             "with_userId ''user-999''"]
        user_list_overrides_enabled
          [OF test_getConfig test_rule_combined, of "JStr ''user-789''" "[]" None]
        user_list_overrides_enabled
          [OF test_getConfig test_rule_user_specific, of "JStr ''user-123''" "[JStr ''user-456'']"
             "with_userId ''user-456''"]
  by (simp add: with_userId_def)

text \<open>Claim C1 as stated fails: the list \<^verbatim>\<open>[""]\<close> holds the \<^verbatim>\<open>userId\<close> of the user
  \<^verbatim>\<open>{ userId: "" }\<close>, and the result is \<^verbatim>\<open>false\<close>.\<close>

theorem empty_userId_in_list_is_refused:
  "rule_of blank_id_config ''beta'' = Some (JObj [(''onlyForUserIds'', JArr [JStr []])]) \<and>
   JStr [] \<in> set [JStr []] \<and>
   fst (isFeatureEnabled blank_id_host ''beta'' (with_userId [])
          (initial_state blank_id_host)) = Inr False"
  using isFeatureEnabled_rule [OF blank_id_getConfig blank_id_rule, of "with_userId []"]
  by (simp add: blank_id_rule rule_verdict_def js_prop_def with_userId_def optional_userId_def
      string_truthy_def)

text \<open>
  Claim C2. Where the rule's \<^verbatim>\<open>onlyForUserIds\<close> is present and is the empty list,
  \<open>isFeatureEnabled\<close> goes on to the \<^verbatim>\<open>enabled\<close> check: it returns \<^verbatim>\<open>enabled === true\<close>, that is
  the value of \<^verbatim>\<open>enabled\<close> when that is a boolean, and \<^verbatim>\<open>false\<close> when \<^verbatim>\<open>enabled\<close> is absent,
  for every user.
\<close>

theorem empty_user_list_falls_through:
  assumes cfg: "fst (getConfig h s) = Inr config"
    and rule: "rule_of config name = Some (JObj props)"
    and ids: "map_of props ''onlyForUserIds'' = Some (JArr [])"
  shows "fst (isFeatureEnabled h name user s) =
           Inr (map_of props ''enabled'' = Some (JBool True)) \<and>
         (map_of props ''enabled'' = Some (JBool b) \<longrightarrow>
            fst (isFeatureEnabled h name user s) = Inr b) \<and>
         (map_of props ''enabled'' = None \<longrightarrow>
            fst (isFeatureEnabled h name user s) = Inr False)"
  unfolding isFeatureEnabled_rule [OF cfg rule] rule_verdict_def
  using ids by (auto simp: js_prop_def Let_def)

theorem empty_user_list_falls_through_witness:
  "fst (isFeatureEnabled empty_list_host ''beta'' None
          (initial_state empty_list_host)) = Inr True \<and>
   fst (isFeatureEnabled empty_list_host ''gamma'' (with_userId ''user-123'')
          (initial_state empty_list_host)) = Inr False"
  using empty_user_list_falls_through
          [OF empty_list_getConfig empty_list_rule_beta, of None True]
        empty_user_list_falls_through
          [OF empty_list_getConfig empty_list_rule_gamma, of "with_userId ''user-123''" True]
  by simp

text \<open>
  Claim C9. Where the rule's non-empty \<^verbatim>\<open>onlyForUserIds\<close> list contains the empty string,
  \<open>isFeatureEnabled\<close> returns \<^verbatim>\<open>false\<close> for a user whose \<^verbatim>\<open>userId\<close> is the empty string: the
  falsy check treats it as a user without \<^verbatim>\<open>userId\<close> and the list is not consulted.
\<close>

theorem empty_userId_never_matches:
  assumes cfg: "fst (getConfig h s) = Inr config"
    and rule: "rule_of config name = Some (JObj props)"
    and ids: "map_of props ''onlyForUserIds'' = Some (JArr xs)"
    and blank: "JStr [] \<in> set xs"
    and user: "userId u = Some []"
  shows "fst (isFeatureEnabled h name (Some u) s) = Inr False"
  unfolding isFeatureEnabled_rule [OF cfg rule] rule_verdict_def
  using ids user blank
  by (auto simp: js_prop_def Let_def string_truthy_def optional_userId_def)

theorem empty_userId_never_matches_witness:
  "fst (isFeatureEnabled blank_id_host ''beta''
          (Some \<lparr>userId = Some [], handle = Some ''ann'', email = None\<rparr>)
          (initial_state blank_id_host)) = Inr False"
  using empty_userId_never_matches
          [OF blank_id_getConfig blank_id_rule, of "[JStr []]"
             "\<lparr>userId = Some [], handle = Some ''ann'', email = None\<rparr>"]
  by simp






section \<open>The batch checks\<close>

text \<open>The result of \<open>isFeatureEnabled\<close> depends on the state only through what \<open>getConfig\<close>
  returns there, and a call does not change what \<open>getConfig\<close> returns.\<close>

lemma getConfig_cache_only:
  "cachedConfig a = cachedConfig b \<Longrightarrow> fst (getConfig h a) = fst (getConfig h b)"
  by (simp add: getConfig_def Let_def split: sum.splits)

lemma getConfig_again:
  assumes "getConfig h s = (r, s1)"
  shows "fst (getConfig h s1) = r"
  using assms
  by (auto simp: getConfig_def Let_def empty_config_def split: if_splits sum.splits)

lemma isFeatureEnabled_try_state:
  "cachedConfig (snd (isFeatureEnabled_try h name user s)) = cachedConfig (snd (getConfig h s))"
  unfolding isFeatureEnabled_try_def
  by (cases "getConfig h s") (auto simp: Let_def split: sum.splits member.splits)

lemma isFeatureEnabled_state:
  "cachedConfig (snd (isFeatureEnabled h name user s)) = cachedConfig (snd (getConfig h s))"
  using isFeatureEnabled_try_state [of h name user s]
  unfolding isFeatureEnabled_def
  by (cases "isFeatureEnabled_try h name user s") (auto split: sum.splits)

lemma isFeatureEnabled_try_view:
  assumes "fst (getConfig h a) = fst (getConfig h b)"
  shows "fst (isFeatureEnabled_try h name user a) = fst (isFeatureEnabled_try h name user b)"
  using assms unfolding isFeatureEnabled_try_def
  by (cases "getConfig h a"; cases "getConfig h b")
     (auto simp: Let_def split: sum.splits member.splits)

lemma isFeatureEnabled_view:
  assumes "fst (getConfig h a) = fst (getConfig h b)"
  shows "fst (isFeatureEnabled h name user a) = fst (isFeatureEnabled h name user b)"
  using isFeatureEnabled_try_view [OF assms, of name user]
  unfolding isFeatureEnabled_def
  by (cases "isFeatureEnabled_try h name user a"; cases "isFeatureEnabled_try h name user b")
     (auto split: sum.splits)

lemma getConfig_after_call:
  "fst (getConfig h (snd (isFeatureEnabled h name user s))) = fst (getConfig h s)"
proof -
  obtain r s1 where g: "getConfig h s = (r, s1)" by (cases "getConfig h s")
  have "cachedConfig (snd (isFeatureEnabled h name user s)) = cachedConfig s1"
    using isFeatureEnabled_state [of h name user s] g by simp
  then have "fst (getConfig h (snd (isFeatureEnabled h name user s))) = fst (getConfig h s1)"
    by (rule getConfig_cache_only)
  also have "\<dots> = r" using g by (rule getConfig_again)
  finally show ?thesis using g by simp
qed

lemma array_some_calls:
  assumes "fst (getConfig h s0) = fst (getConfig h s)"
  shows "array_some (\<lambda>name. isFeatureEnabled h name user) names s0 =
     (Inr (\<exists>name\<in>set names. enabled_in h user s name),
      after_calls h user (through_first (enabled_in h user s) names) s0)"
  using assms
proof (induction names arbitrary: s0)
  case Nil
  then show ?case by (simp add: after_calls_def)
next
  case (Cons n names)
  obtain b s1 where c: "isFeatureEnabled h n user s0 = (Inr b, s1)"
    using isFeatureEnabled_returns [of h n user s0] by auto
  have e: "enabled_in h user s n = b"
    using isFeatureEnabled_view [OF Cons.prems, of n user] c by (auto simp: enabled_in_def)
  have v: "fst (getConfig h s1) = fst (getConfig h s)"
    using getConfig_after_call [of h n user s0] c Cons.prems by simp
  show ?case
  proof (cases b)
    case True
    then show ?thesis using c e by (auto simp: after_calls_def)
  next
    case False
    then show ?thesis using c e Cons.IH [OF v] by (auto simp: after_calls_def)
  qed
qed

lemma array_every_calls:
  assumes "fst (getConfig h s0) = fst (getConfig h s)"
  shows "array_every (\<lambda>name. isFeatureEnabled h name user) names s0 =
     (Inr (\<forall>name\<in>set names. enabled_in h user s name),
      after_calls h user (through_first (\<lambda>name. \<not> enabled_in h user s name) names) s0)"
  using assms
proof (induction names arbitrary: s0)
  case Nil
  then show ?case by (simp add: after_calls_def)
next
  case (Cons n names)
  obtain b s1 where c: "isFeatureEnabled h n user s0 = (Inr b, s1)"
    using isFeatureEnabled_returns [of h n user s0] by auto
  have e: "enabled_in h user s n = b"
    using isFeatureEnabled_view [OF Cons.prems, of n user] c by (auto simp: enabled_in_def)
  have v: "fst (getConfig h s1) = fst (getConfig h s)"
    using getConfig_after_call [of h n user s0] c Cons.prems by simp
  show ?case
  proof (cases b)
    case True
    then show ?thesis using c e Cons.IH [OF v] by (auto simp: after_calls_def)
  next
    case False
    then show ?thesis using c e by (auto simp: after_calls_def)
  qed
qed

lemma test_text_nonempty: "test_text \<noteq> []"
  by (simp add: test_text_def)

lemma test_getConfig_loaded:
  "getConfig test_host (initial_state test_host) = (Inr test_config, test_loaded)"
  by (simp add: getConfig_def test_loaded_def test_host_def host_with_transport_def
      sample_host_def initial_state_def detectEnvironment_def isDevelopment_def
      configString_def js_or_def string_truthy_def Logger_defs test_text_nonempty)

lemma test_getConfig_cached: "getConfig test_host test_loaded = (Inr test_config, test_loaded)"
  by (simp add: getConfig_def test_loaded_def test_config_def)

lemma isFeatureEnabled_plain_rule:
  assumes "getConfig h s = (Inr config, s1)"
    and "rule_of config name = Some (JObj props)"
    and "map_of props ''onlyForUserIds'' = None"
  shows "isFeatureEnabled h name user s = (Inr (map_of props ''enabled'' = Some (JBool True)), s1)"
  unfolding isFeatureEnabled_def isFeatureEnabled_try_rule [OF assms(1,2)]
  using assms(3) by (simp add: js_prop_def)

lemma isFeatureEnabled_unknown:
  assumes "getConfig h s = (Inr config, s1)"
    and "own_property config ''features'' = Some (JObj fs)"
    and "map_of fs name = None"
    and "\<not> inherited_member h (JObj fs) name"
  shows \<open>isFeatureEnabled h name user s =
     (Inr False, Logger_warn (''Feature "'' @ name @ ''" not found in configuration'') s1)\<close>
  unfolding isFeatureEnabled_def isFeatureEnabled_try_def
  using assms by (simp add: js_get_own js_member_def)

lemma test_rule_enabled:
  "rule_of test_config ''test_feature_enabled'' =
     Some (JObj [(''enabled'', JBool True),
                 (''comment'', JStr ''Test feature that is enabled'')])"
  by (simp add: test_config_def rule_of_def)

lemma test_rule_disabled:
  "rule_of test_config ''test_feature_disabled'' =
     Some (JObj [(''enabled'', JBool False),
                 (''comment'', JStr ''Test feature that is disabled'')])"
  by (simp add: test_config_def rule_of_def)

lemma test_calls:
  "isFeatureEnabled test_host ''test_feature_enabled'' None (initial_state test_host) =
     (Inr True, test_loaded)"
  "isFeatureEnabled test_host ''test_feature_disabled'' None (initial_state test_host) =
     (Inr False, test_loaded)"
  "isFeatureEnabled test_host ''test_feature_enabled'' None test_loaded = (Inr True, test_loaded)"
  "isFeatureEnabled test_host ''test_feature_disabled'' None test_loaded = (Inr False, test_loaded)"
  using isFeatureEnabled_plain_rule [OF test_getConfig_loaded test_rule_enabled, of None]
        isFeatureEnabled_plain_rule [OF test_getConfig_loaded test_rule_disabled, of None]
        isFeatureEnabled_plain_rule [OF test_getConfig_cached test_rule_enabled, of None]
        isFeatureEnabled_plain_rule [OF test_getConfig_cached test_rule_disabled, of None]
  by simp_all

lemma test_call_unknown:
  \<open>isFeatureEnabled test_host ''non_existent'' None test_loaded =
     (Inr False,
      test_loaded\<lparr>written := written test_loaded @
        [(process_stderr,
          ''[ffxl] WARNING: Feature "non_existent" not found in configuration'' @ [CHR 0x0A])]\<rparr>)\<close>
  \<open>isFeatureEnabled test_host ''non_existent'' None (initial_state test_host) =
     (Inr False,
      test_loaded\<lparr>written := written test_loaded @
        [(process_stderr,
          ''[ffxl] WARNING: Feature "non_existent" not found in configuration'' @ [CHR 0x0A])]\<rparr>)\<close>
proof -
  have f: "own_property test_config ''features'' = Some (JObj (Object_entries (js_prop test_config ''features'')))"
    by (simp add: test_config_def js_prop_def)
  have m: "map_of (Object_entries (js_prop test_config ''features'')) ''non_existent'' = None"
    by (simp add: test_config_def js_prop_def)
  have i: "\<not> inherited_member test_host (JObj (Object_entries (js_prop test_config ''features''))) ''non_existent''"
    by (simp add: test_host_def host_with_transport_def sample_host_def)
  show \<open>isFeatureEnabled test_host ''non_existent'' None test_loaded =
     (Inr False,
      test_loaded\<lparr>written := written test_loaded @
        [(process_stderr,
          ''[ffxl] WARNING: Feature "non_existent" not found in configuration'' @ [CHR 0x0A])]\<rparr>)\<close>
    using isFeatureEnabled_unknown [OF test_getConfig_cached f m i, of None]
    by (simp add: Logger_warn_def emit_def test_loaded_def)
  show \<open>isFeatureEnabled test_host ''non_existent'' None (initial_state test_host) =
     (Inr False,
      test_loaded\<lparr>written := written test_loaded @
        [(process_stderr,
          ''[ffxl] WARNING: Feature "non_existent" not found in configuration'' @ [CHR 0x0A])]\<rparr>)\<close>
    using isFeatureEnabled_unknown [OF test_getConfig_loaded f m i, of None]
    by (simp add: Logger_warn_def emit_def test_loaded_def)
qed

text \<open>
  Claim C5. \<open>isAnyFeatureEnabled\<close> returns the disjunction and \<open>areAllFeaturesEnabled\<close>
  the conjunction of the results \<open>isFeatureEnabled\<close> has for the names (each taken in the
  state of the call). They evaluate from left to right and stop early: the state they
  leave is the one after the calls for the names up to and including the first enabled
  one (the first not enabled one, for \<open>areAllFeaturesEnabled\<close>). On the empty list they
  return \<^verbatim>\<open>false\<close> and \<^verbatim>\<open>true\<close> and leave the state alone.
\<close>

theorem batch_checks_are_or_and:
  "isAnyFeatureEnabled h names user s =
     (Inr (\<exists>name\<in>set names. enabled_in h user s name),
      after_calls h user (through_first (enabled_in h user s) names) s) \<and>
   areAllFeaturesEnabled h names user s =
     (Inr (\<forall>name\<in>set names. enabled_in h user s name),
      after_calls h user (through_first (\<lambda>name. \<not> enabled_in h user s name) names) s) \<and>
   isAnyFeatureEnabled h [] user s = (Inr False, s) \<and>
   areAllFeaturesEnabled h [] user s = (Inr True, s)"
  unfolding isAnyFeatureEnabled_def areAllFeaturesEnabled_def
  by (simp add: array_some_calls array_every_calls)

text \<open>On the test configuration: the warning for \<^verbatim>\<open>non_existent\<close> is not written when an
  enabled feature comes before it, and it is the last thing written when
  \<open>areAllFeaturesEnabled\<close> stops there.\<close>

theorem batch_checks_are_or_and_witness:
  \<open>isAnyFeatureEnabled test_host
      [''test_feature_disabled'', ''test_feature_enabled'', ''non_existent''] None
      (initial_state test_host) = (Inr True, test_loaded) \<and>
   areAllFeaturesEnabled test_host
      [''test_feature_enabled'', ''non_existent'', ''test_feature_disabled''] None
      (initial_state test_host) =
     (Inr False,
      test_loaded\<lparr>written := written test_loaded @
        [(process_stderr,
          ''[ffxl] WARNING: Feature "non_existent" not found in configuration'' @ [CHR 0x0A])]\<rparr>)\<close>
  using batch_checks_are_or_and
          [of test_host "[''test_feature_disabled'', ''test_feature_enabled'', ''non_existent'']"
              None "initial_state test_host"]
        batch_checks_are_or_and
          [of test_host "[''test_feature_enabled'', ''non_existent'', ''test_feature_disabled'']"
              None "initial_state test_host"]
  by (simp add: enabled_in_def after_calls_def test_calls test_call_unknown)

section \<open>The validator\<close>

lemma validateFeatureConfig_kind:
  "validateFeatureConfig name config = Inl e \<Longrightarrow> \<exists>m. e = FeatureFlagValidationError m"
  by (auto simp: validateFeatureConfig_def Let_def split: if_splits)

lemma validate_entries_kind:
  "validate_entries es = Inl e \<Longrightarrow> \<exists>m. e = FeatureFlagValidationError m"
proof (induction es)
  case Nil
  then show ?case by simp
next
  case (Cons a es)
  then show ?case
    by (cases a) (auto split: sum.splits dest: validateFeatureConfig_kind)
qed

lemma validateConfig_kind:
  "validateConfig doc = Inl e \<Longrightarrow> \<exists>m. e = FeatureFlagValidationError m"
  by (auto simp: validateConfig_def split: if_splits dest: validate_entries_kind)

lemma validate_entries_first:
  assumes "validate_entries before = Inr ()"
    and "validateFeatureConfig name entry = Inl e"
  shows "validate_entries (before @ (name, entry) # rest) = Inl e"
  using assms
  by (induction before) (auto split: sum.splits)

lemma validate_entries_member:
  assumes "(name, entry) \<in> set es"
    and "validateFeatureConfig name entry = Inl e"
  shows "\<exists>e'. validate_entries es = Inl e'"
  using assms
  by (induction es) (auto split: sum.splits)

lemma missing_both_rejected:
  "missing_both entry \<Longrightarrow> \<exists>e. validateFeatureConfig name entry = Inl e"
  by (simp add: validateFeatureConfig_def missing_both_def)

lemma comment_not_string_rejected:
  "comment_not_string entry \<Longrightarrow> \<exists>e. validateFeatureConfig name entry = Inl e"
  by (auto simp: validateFeatureConfig_def comment_not_string_def Let_def has_property_def
      js_prop_def split: option.splits)

lemma non_string_id_rejected:
  "non_string_id entry \<Longrightarrow> \<exists>e. validateFeatureConfig name entry = Inl e"
  by (auto simp: validateFeatureConfig_def non_string_id_def Let_def has_property_def
      js_prop_def split: option.splits jsval.splits)

lemma validateConfig_entry:
  assumes "own_property doc ''features'' = Some features"
    and "(name, entry) \<in> set (Object_entries features)"
    and "validateFeatureConfig name entry = Inl e"
  shows "\<exists>m. validateConfig doc = Inl (FeatureFlagValidationError m)"
proof -
  have "\<exists>e'. validateConfig doc = Inl e'"
    using assms validate_entries_member [OF assms(2,3)]
    by (auto simp: validateConfig_def js_prop_def)
  then show ?thesis using validateConfig_kind by blast
qed

text \<open>
  Claim C6. Validation fails with a \<^verbatim>\<open>FeatureFlagValidationError\<close> on a document without a
  \<^verbatim>\<open>features\<close> key, and on a document one of whose feature entries has neither \<^verbatim>\<open>enabled\<close>
  nor \<^verbatim>\<open>onlyForUserIds\<close>, or a \<^verbatim>\<open>comment\<close> that is not a string, or an \<^verbatim>\<open>onlyForUserIds\<close>
  with an element that is not a string. It stops at the first violation: the error is
  the one of the first entry, in the order of the entries, that fails its checks, and
  within an entry the one of the first check that fails, with the message of that check.
\<close>

theorem validation_rejects:
  \<open>(\<not> has_property ''features'' doc \<longrightarrow>
      (\<exists>m. validateConfig doc = Inl (FeatureFlagValidationError m))) \<and>
   (map_of kvs ''features'' = None \<longrightarrow>
      validateConfig (JObj kvs) =
        Inl (FeatureFlagValidationError ''Configuration must have a "features" property'')) \<and>
   (own_property doc ''features'' = Some features \<and>
    (name, entry) \<in> set (Object_entries features) \<and>
    (missing_both entry \<or> comment_not_string entry \<or> non_string_id entry) \<longrightarrow>
      (\<exists>m. validateConfig doc = Inl (FeatureFlagValidationError m))) \<and>
   (map_of kvs ''features'' = Some features \<and>
    js_typeof features = TObject \<and> features \<noteq> JNull \<and>
    Object_entries features = before @ (name, entry) # rest \<and>
    validate_entries before = Inr () \<and> validateFeatureConfig name entry = Inl e \<longrightarrow>
      validateConfig (JObj kvs) = Inl e) \<and>
   (js_typeof entry = TObject \<and> entry \<noteq> JNull \<and> missing_both entry \<longrightarrow>
      validateFeatureConfig name entry =
        Inl (FeatureFlagValidationError
              (''Feature "'' @ name @
               ''" must have either "enabled" or "onlyForUserIds" property''))) \<and>
   ((\<forall>v. map_of props ''enabled'' = Some v \<longrightarrow> js_typeof v = TBoolean) \<and>
    map_of props ''onlyForUserIds'' = Some (JArr xs) \<and>
    \<not> list_all (\<lambda>item. js_typeof item = TString) xs \<longrightarrow>
      validateFeatureConfig name (JObj props) =
        Inl (FeatureFlagValidationError
              (''Feature "'' @ name @
               ''": all items in "onlyForUserIds" must be strings''))) \<and>
   ((\<forall>v. map_of props ''enabled'' = Some v \<longrightarrow> js_typeof v = TBoolean) \<and>
    (\<forall>v. map_of props ''onlyForUserIds'' = Some v \<longrightarrow>
         Array_isArray v \<and> list_all (\<lambda>item. js_typeof item = TString) (elements v)) \<and>
    \<not> missing_both (JObj props) \<and>
    map_of props ''comment'' = Some c \<and> js_typeof c \<noteq> TString \<longrightarrow>
      validateFeatureConfig name (JObj props) =
        Inl (FeatureFlagValidationError
              (''Feature "'' @ name @ ''": "comment" must be a string'')))\<close>
proof (intro conjI impI)
  assume "\<not> has_property ''features'' doc"
  then have "\<exists>e. validateConfig doc = Inl e"
    by (simp add: validateConfig_def)
  then show "\<exists>m. validateConfig doc = Inl (FeatureFlagValidationError m)"
    using validateConfig_kind by blast
next
  assume "map_of kvs ''features'' = None"
  then show \<open>validateConfig (JObj kvs) =
        Inl (FeatureFlagValidationError ''Configuration must have a "features" property'')\<close>
    by (simp add: validateConfig_def has_property_def)
next
  assume a: "own_property doc ''features'' = Some features \<and>
    (name, entry) \<in> set (Object_entries features) \<and>
    (missing_both entry \<or> comment_not_string entry \<or> non_string_id entry)"
  then obtain e where "validateFeatureConfig name entry = Inl e"
    using missing_both_rejected comment_not_string_rejected non_string_id_rejected by blast
  with a show "\<exists>m. validateConfig doc = Inl (FeatureFlagValidationError m)"
    using validateConfig_entry by blast
next
  assume "map_of kvs ''features'' = Some features \<and>
    js_typeof features = TObject \<and> features \<noteq> JNull \<and>
    Object_entries features = before @ (name, entry) # rest \<and>
    validate_entries before = Inr () \<and> validateFeatureConfig name entry = Inl e"
  then show "validateConfig (JObj kvs) = Inl e"
    by (simp add: validateConfig_def has_property_def js_prop_def validate_entries_first)
next
  assume "js_typeof entry = TObject \<and> entry \<noteq> JNull \<and> missing_both entry"
  then show \<open>validateFeatureConfig name entry =
        Inl (FeatureFlagValidationError
              (''Feature "'' @ name @
               ''" must have either "enabled" or "onlyForUserIds" property''))\<close>
    by (simp add: validateFeatureConfig_def missing_both_def)
next
  assume "(\<forall>v. map_of props ''enabled'' = Some v \<longrightarrow> js_typeof v = TBoolean) \<and>
    map_of props ''onlyForUserIds'' = Some (JArr xs) \<and>
    \<not> list_all (\<lambda>item. js_typeof item = TString) xs"
  then show \<open>validateFeatureConfig name (JObj props) =
        Inl (FeatureFlagValidationError
              (''Feature "'' @ name @
               ''": all items in "onlyForUserIds" must be strings''))\<close>
    by (auto simp: validateFeatureConfig_def Let_def has_property_def js_prop_def
        split: option.splits)
next
  assume "(\<forall>v. map_of props ''enabled'' = Some v \<longrightarrow> js_typeof v = TBoolean) \<and>
    (\<forall>v. map_of props ''onlyForUserIds'' = Some v \<longrightarrow>
         Array_isArray v \<and> list_all (\<lambda>item. js_typeof item = TString) (elements v)) \<and>
    \<not> missing_both (JObj props) \<and>
    map_of props ''comment'' = Some c \<and> js_typeof c \<noteq> TString"
  then show \<open>validateFeatureConfig name (JObj props) =
        Inl (FeatureFlagValidationError
              (''Feature "'' @ name @ ''": "comment" must be a string''))\<close>
    by (auto simp: validateFeatureConfig_def Let_def has_property_def js_prop_def missing_both_def
        split: option.splits)
qed

text \<open>One document for each of the four defects, and one with a valid entry before
  and a defective entry after the entry that is reported.\<close>

theorem validation_rejects_witness:
  \<open>validateConfig (JObj [(''features'', JObj [(''beta'', JObj [(''comment'', JStr ''soon'')])])]) =
     Inl (FeatureFlagValidationError
           ''Feature "beta" must have either "enabled" or "onlyForUserIds" property'') \<and>
   validateConfig
     (JObj [(''features'', JObj [(''beta'', JObj [(''enabled'', JBool True), (''comment'', JNum 5)])])]) =
     Inl (FeatureFlagValidationError ''Feature "beta": "comment" must be a string'') \<and>
   validateConfig
     (JObj [(''features'', JObj [(''beta'', JObj [(''onlyForUserIds'', JArr [JStr ''u1'', JNum 2])])])]) =
     Inl (FeatureFlagValidationError
           ''Feature "beta": all items in "onlyForUserIds" must be strings'') \<and>
   validateConfig (JObj [(''flags'', JObj [])]) =
     Inl (FeatureFlagValidationError ''Configuration must have a "features" property'') \<and>
   validateConfig
     (JObj [(''features'', JObj
        [(''alpha'', JObj [(''enabled'', JBool True)]),
         (''beta'', JObj [(''comment'', JStr ''soon'')]),
         (''gamma'', JObj [(''enabled'', JBool True), (''comment'', JNum 5)])])]) =
     Inl (FeatureFlagValidationError
           ''Feature "beta" must have either "enabled" or "onlyForUserIds" property'')\<close>
proof -
  have a: \<open>validateFeatureConfig ''beta'' (JObj [(''comment'', JStr ''soon'')]) =
     Inl (FeatureFlagValidationError
           ''Feature "beta" must have either "enabled" or "onlyForUserIds" property'')\<close>
    using validation_rejects
            [where entry = "JObj [(''comment'', JStr ''soon'')]" and name = "''beta''"]
    by (simp add: missing_both_def has_property_def)
  have b: \<open>validateFeatureConfig ''beta'' (JObj [(''enabled'', JBool True), (''comment'', JNum 5)]) =
     Inl (FeatureFlagValidationError ''Feature "beta": "comment" must be a string'')\<close>
    using validation_rejects
            [where props = "[(''enabled'', JBool True), (''comment'', JNum 5)]"
               and name = "''beta''" and c = "JNum 5"]
    by (simp add: missing_both_def has_property_def)
  have c: \<open>validateFeatureConfig ''beta'' (JObj [(''onlyForUserIds'', JArr [JStr ''u1'', JNum 2])]) =
     Inl (FeatureFlagValidationError
           ''Feature "beta": all items in "onlyForUserIds" must be strings'')\<close>
    using validation_rejects
            [where props = "[(''onlyForUserIds'', JArr [JStr ''u1'', JNum 2])]"
               and name = "''beta''" and xs = "[JStr ''u1'', JNum 2]"]
    by simp
  have ok: "validate_entries [(''alpha'', JObj [(''enabled'', JBool True)])] = Inr ()"
    by (simp add: validateFeatureConfig_def has_property_def js_prop_def)
  show ?thesis
    using a b c ok
      validation_rejects
        [where kvs = "[(''features'', JObj [(''beta'', JObj [(''comment'', JStr ''soon'')])])]"
           and features = "JObj [(''beta'', JObj [(''comment'', JStr ''soon'')])]"
           and before = "[]" and name = "''beta''"
           and entry = "JObj [(''comment'', JStr ''soon'')]" and rest = "[]"]
      validation_rejects
        [where kvs = "[(''features'', JObj [(''beta'', JObj [(''enabled'', JBool True), (''comment'', JNum 5)])])]"
           and features = "JObj [(''beta'', JObj [(''enabled'', JBool True), (''comment'', JNum 5)])]"
           and before = "[]" and name = "''beta''"
           and entry = "JObj [(''enabled'', JBool True), (''comment'', JNum 5)]" and rest = "[]"]
      validation_rejects
        [where kvs = "[(''features'', JObj [(''beta'', JObj [(''onlyForUserIds'', JArr [JStr ''u1'', JNum 2])])])]"
           and features = "JObj [(''beta'', JObj [(''onlyForUserIds'', JArr [JStr ''u1'', JNum 2])])]"
           and before = "[]" and name = "''beta''"
           and entry = "JObj [(''onlyForUserIds'', JArr [JStr ''u1'', JNum 2])]" and rest = "[]"]
      validation_rejects [where kvs = "[(''flags'', JObj [])]"]
      validation_rejects
        [where kvs = "[(''features'', JObj
              [(''alpha'', JObj [(''enabled'', JBool True)]),
               (''beta'', JObj [(''comment'', JStr ''soon'')]),
               (''gamma'', JObj [(''enabled'', JBool True), (''comment'', JNum 5)])])]"
           and features = "JObj
              [(''alpha'', JObj [(''enabled'', JBool True)]),
               (''beta'', JObj [(''comment'', JStr ''soon'')]),
               (''gamma'', JObj [(''enabled'', JBool True), (''comment'', JNum 5)])]"
           and before = "[(''alpha'', JObj [(''enabled'', JBool True)])]" and name = "''beta''"
           and entry = "JObj [(''comment'', JStr ''soon'')]"
           and rest = "[(''gamma'', JObj [(''enabled'', JBool True), (''comment'', JNum 5)])]"]
    by simp
qed

section \<open>The loader\<close>



lemma sample_path:
  "fst (getFeatureFlagsPath sample_host (initial_state sample_host)) = Inr ''/app/feature-flags.yaml''"
  by (simp add: getFeatureFlagsPath_def sample_host_def js_or_def string_truthy_def Let_def)



text \<open>
  Claim C7, as the code has it. Once \<open>loadFeatureFlags\<close> has resolved the path of the
  source file (which it does in the Node.js environment only), it fails whenever that
  path does not exist, and the error is a \<^verbatim>\<open>FeatureFlagValidationError\<close> with the message
  \<^verbatim>\<open>Feature flags file not found: <path>\<close>: the error class of validation failures.
\<close>

theorem missing_file_raises_validation_error:
  assumes "detectEnvironment h = node"
    and "fst (getFeatureFlagsPath h s) = Inr filePath"
    and "\<not> fs_existsSync h filePath"
  shows "fst (loadFeatureFlags h s) =
           Inl (FeatureFlagValidationError (''Feature flags file not found: '' @ filePath))"
  using assms
  unfolding loadFeatureFlags_def loadFeatureFlags_try_def
  by (cases "getFeatureFlagsPath h s") auto

theorem missing_file_raises_validation_error_witness:
  "fst (loadFeatureFlags sample_host (initial_state sample_host)) =
     Inl (FeatureFlagValidationError ''Feature flags file not found: /app/feature-flags.yaml'')"
proof -
  have e: "detectEnvironment sample_host = node"
    by (simp add: detectEnvironment_def sample_host_def)
  have n: "\<not> fs_existsSync sample_host ''/app/feature-flags.yaml''"
    by (simp add: sample_host_def)
  show ?thesis
    using missing_file_raises_validation_error [OF e sample_path n] by simp
qed

text \<open>Claim C7 as stated fails: the error for a missing file and the error for a document
  that fails validation are of the same kind; \<^verbatim>\<open>types.ts\<close> has no other.\<close>

theorem missing_file_error_kind:
  \<open>fst (loadFeatureFlags
          (sample_host\<lparr>process_env := Some (map_of [(''FFXL_FILE'', ''flags.yaml'')])\<rparr>)
          (initial_state sample_host)) =
     Inl (FeatureFlagValidationError ''Feature flags file not found: /app/flags.yaml'') \<and>
   validateConfig (JObj []) =
     Inl (FeatureFlagValidationError ''Configuration must have a "features" property'')\<close>
  by (simp add: loadFeatureFlags_def loadFeatureFlags_try_def getFeatureFlagsPath_def
      detectEnvironment_def sample_host_def js_or_def string_truthy_def Let_def
      initial_state_def isDevelopment_def Logger_defs validateConfig_def has_property_def)



end
